theory Spec2Isabelle
  imports Complex_Main
begin

section \<open>Numbers and units\<close>

text \<open>
  Both entry scripts (\<^verbatim>\<open>app.py\<close>, the web variant, and \<^verbatim>\<open>bill.py\<close>, the batch
  variant) compute with Python floats. Lengths are embedded as \<^typ>\<open>real\<close>: the
  comparisons and the arithmetic are those of the source, rounding is not modelled.
  Python's \<^verbatim>\<open>int\<close> is \<^typ>\<open>int\<close>.
\<close>

text \<open>
  Modelled from the spec: the unit constant \<^verbatim>\<open>cm\<close> of the PDF library
  (\<^verbatim>\<open>reportlab.lib.units\<close>) is imported by both scripts and is not part of the
  repository. All layout lengths are in points; the glossary fixes 72 points per inch and
  the annotation rule converts centimetres to inches by dividing by 2.54, so one
  centimetre is \<open>72 / 2.54\<close> points.
\<close>

definition cm :: real where
  "cm = 72 / 2.54"

text \<open>
  Modelled from the spec: \<^verbatim>\<open>A4\<close> (\<^verbatim>\<open>reportlab.lib.pagesizes\<close>) is the page size in
  points; only its first component is used here, ``A4 portrait width in cm'' being 21.0.
\<close>

definition A4_0 :: real where
  "A4_0 = 21 * cm"

section \<open>Label sides and font size\<close>

text \<open>\<^verbatim>\<open>sides = sorted([side1, side2])\<close>, then \<^verbatim>\<open>sides[0]\<close> and \<^verbatim>\<open>sides[1]\<close>.\<close>

definition smallest_side :: "real \<Rightarrow> real \<Rightarrow> real" where
  "smallest_side side1 side2 = (if side2 < side1 then side2 else side1)"

definition second_smallest_side :: "real \<Rightarrow> real \<Rightarrow> real" where
  "second_smallest_side side1 side2 = (if side2 < side1 then side1 else side2)"

text \<open>\<^verbatim>\<open>get_font_size_pt\<close> of \<^verbatim>\<open>app.py\<close> (lines 47--58); \<open>None\<close> is Python's \<^verbatim>\<open>None\<close>.\<close>

definition app_get_font_size_pt :: "real option \<Rightarrow> int" where
  "app_get_font_size_pt area_cm2 =
     (case area_cm2 of
        None \<Rightarrow> 8
      | Some a \<Rightarrow>
          if a \<le> 50 then 8
          else if a \<le> 100 then 9
          else if a \<le> 500 then 10
          else if a \<le> 2500 then 16
          else 24)"

text \<open>\<^verbatim>\<open>get_font_size_pt\<close> of \<^verbatim>\<open>bill.py\<close> (lines 79--90).\<close>

definition bill_get_font_size_pt :: "real option \<Rightarrow> int" where
  "bill_get_font_size_pt area_cm2 =
     (case area_cm2 of
        None \<Rightarrow> 8
      | Some a \<Rightarrow>
          if a \<le> 50 then 8
          else if a \<le> 100 then 9
          else if a \<le> 500 then 10
          else if a \<le> 2500 then 16
          else 24)"

section \<open>Table width\<close>

text \<open>
  The width logic of \<^verbatim>\<open>app.py\<close> (lines 229--235) and \<^verbatim>\<open>bill.py\<close> (lines 199--212);
  the two texts differ only in the messages \<^verbatim>\<open>bill.py\<close> prints. The argument is the
  smaller label side.
\<close>

definition a4_page_width_cm :: real where
  "a4_page_width_cm = A4_0 / cm"

definition total_table_width_cm :: "real \<Rightarrow> real" where
  "total_table_width_cm smallest =
     (let w = (if smallest > a4_page_width_cm then 20.0 else smallest - 1.0)
      in if w \<le> 0 then 1.0 else w)"

definition total_table_width :: "real \<Rightarrow> real" where
  "total_table_width smallest = total_table_width_cm smallest * cm"

section \<open>Barcode height\<close>

text \<open>
  The constants and the decision procedure of \<^verbatim>\<open>app.py\<close> (lines 262--289) and
  \<^verbatim>\<open>bill.py\<close> (lines 240--271). The first argument is the height the library measured
  for the table without a barcode row, the second is \<^verbatim>\<open>second_smallest_side * cm\<close>.
\<close>

definition TOP_SPACER_HEIGHT :: real where
  "TOP_SPACER_HEIGHT = 0.2 * cm"

definition BOTTOM_PADDING_HEIGHT :: real where
  "BOTTOM_PADDING_HEIGHT = 3 * (cm / 72.0)"

definition TOTAL_ROW_PADDING :: real where
  "TOTAL_ROW_PADDING = TOP_SPACER_HEIGHT + BOTTOM_PADDING_HEIGHT"

definition MIN_BARCODE_IMAGE_HEIGHT :: real where
  "MIN_BARCODE_IMAGE_HEIGHT = 0.5 * cm"

definition target_barcode_height :: "real \<Rightarrow> real \<Rightarrow> real" where
  "target_barcode_height main_table_height_points max_allowed_height_points =
     (if main_table_height_points \<ge> max_allowed_height_points
      then main_table_height_points / 7.0
      else
        let barcode_height_1_7th = main_table_height_points / 7.0;
            total_height_with_1_7th =
              main_table_height_points + barcode_height_1_7th + TOTAL_ROW_PADDING
        in if total_height_with_1_7th \<le> max_allowed_height_points
           then barcode_height_1_7th
           else
             let remaining_space_for_image =
                   max_allowed_height_points - main_table_height_points - TOTAL_ROW_PADDING
             in if remaining_space_for_image < MIN_BARCODE_IMAGE_HEIGHT
                then MIN_BARCODE_IMAGE_HEIGHT
                else remaining_space_for_image)"

section \<open>Barcode fitting\<close>

datatype py_error = ZeroDivisionError | ImageOpenError | InvalidBarcodeHeight

text \<open>
  The sizing statements inside the \<^verbatim>\<open>try\<close> block of \<^verbatim>\<open>app.py\<close> (lines 300--306)
  and \<^verbatim>\<open>bill.py\<close> (lines 282--291), entered only once the pixel height is known not
  to be zero. Arguments: target height, \<^verbatim>\<open>max_width\<close> (the table width in points),
  pixel width, pixel height. Python's float division raises on a zero divisor; the
  division by \<^verbatim>\<open>aspect_ratio\<close> is the one place left where that can happen.
\<close>

definition fit_barcode :: "real \<Rightarrow> real \<Rightarrow> int \<Rightarrow> int \<Rightarrow> py_error + (real \<times> real)" where
  "fit_barcode target max_width img_width_px img_height_px =
     (if img_height_px = 0 then Inl ZeroDivisionError
      else
        let aspect_ratio = real_of_int img_width_px / real_of_int img_height_px;
            final_barcode_height = target;
            final_barcode_width = aspect_ratio * final_barcode_height
        in if final_barcode_width > max_width
           then
             let final_barcode_width' = max_width * 0.98
             in if aspect_ratio = 0 then Inl ZeroDivisionError
                else Inr (final_barcode_width', final_barcode_width' / aspect_ratio)
           else Inr (final_barcode_width, final_barcode_height))"

section \<open>Strings\<close>

text \<open>
  A Python \<^verbatim>\<open>str\<close> is a sequence of Unicode code points. The sanitizer's character
  class reaches beyond one byte (\<^verbatim>\<open>\u2000-\u206F\<close>, the box and bullet glyphs), so a
  string is embedded as the list of its code points; \<open>ustr\<close> writes an ASCII literal.
\<close>

type_synonym py_str = "nat list"

definition ustr :: "string \<Rightarrow> py_str" where
  "ustr s = map of_char s"

text \<open>
  The characters \<^verbatim>\<open>str.strip()\<close> removes and the class \<^verbatim>\<open>\s\<close> of \<^verbatim>\<open>re\<close> matches in a
  \<^verbatim>\<open>str\<close> pattern are the same set, CPython's Unicode whitespace: U+0009--U+000D,
  U+001C--U+0020, U+0085, U+00A0, U+1680, U+2000--U+200A, U+2028, U+2029, U+202F, U+205F
  and U+3000.
\<close>

definition isspace :: "nat \<Rightarrow> bool" where
  "isspace c =
     ((0x09 \<le> c \<and> c \<le> 0x0D) \<or> (0x1C \<le> c \<and> c \<le> 0x20) \<or> c = 0x85 \<or> c = 0xA0 \<or>
      c = 0x1680 \<or> (0x2000 \<le> c \<and> c \<le> 0x200A) \<or> c = 0x2028 \<or> c = 0x2029 \<or>
      c = 0x202F \<or> c = 0x205F \<or> c = 0x3000)"

text \<open>\<^verbatim>\<open>s.strip()\<close>: leading, then trailing whitespace is dropped.\<close>

definition strip :: "py_str \<Rightarrow> py_str" where
  "strip s = rev (dropWhile isspace (rev (dropWhile isspace s)))"

text \<open>\<^verbatim>\<open>sep.join(xs)\<close>.\<close>

fun join :: "py_str \<Rightarrow> py_str list \<Rightarrow> py_str" where
  "join sep [] = []"
| "join sep [x] = x"
| "join sep (x # y # ys) = x @ sep @ join sep (y # ys)"

section \<open>Key/value extraction\<close>

text \<open>
  A Python \<^verbatim>\<open>dict\<close> keeps its keys in insertion order; \<^verbatim>\<open>d[k] = v\<close> replaces the value
  of a key that is present, where it stands, and appends a new entry otherwise. The
  dictionary \<^verbatim>\<open>data\<close> is an association list in that order.
\<close>

fun dict_set :: "('k \<times> 'v) list \<Rightarrow> 'k \<Rightarrow> 'v \<Rightarrow> ('k \<times> 'v) list" where
  "dict_set [] k v = [(k, v)]"
| "dict_set ((k', v') # d) k v =
     (if k' = k then (k', v) # d else (k', v') # dict_set d k v)"

text \<open>
  The body of the loop over the rows of the CSV reader, \<^verbatim>\<open>app.py\<close> lines 163--171 and
  \<^verbatim>\<open>bill.py\<close> lines 99--107 (the same statements). A row is the list of its cells.
\<close>

definition read_row :: "(py_str \<times> py_str) list \<Rightarrow> py_str list \<Rightarrow> (py_str \<times> py_str) list" where
  "read_row data row =
     (if row = [] then data
      else if length row > 1 then
        let key = hd row; value = join (ustr '','') (tl row)
        in dict_set data (strip key) (strip value)
      else if length row = 1 then dict_set data (strip (hd row)) []
      else data)"

definition read_rows :: "py_str list list \<Rightarrow> (py_str \<times> py_str) list" where
  "read_rows rows = foldl read_row [] rows"

section \<open>Text sanitizer\<close>

text \<open>
  The character class of the first substitution, the same in both scripts:
  \<^verbatim>\<open>[\x00-\x1F\x7F-\x9F\u2000-\u206F...\u25A1]\<close>, where the seven literal glyphs are
  U+25A0, U+25A1, U+25CF, U+25FE, U+25FB, U+25AA and U+25AB.
\<close>

definition in_removed_class :: "nat \<Rightarrow> bool" where
  "in_removed_class c =
     ((0x00 \<le> c \<and> c \<le> 0x1F) \<or> (0x7F \<le> c \<and> c \<le> 0x9F) \<or> (0x2000 \<le> c \<and> c \<le> 0x206F) \<or>
      c = 0x25A0 \<or> c = 0x25A1 \<or> c = 0x25CF \<or> c = 0x25FE \<or> c = 0x25FB \<or> c = 0x25AA \<or>
      c = 0x25AB \<or> c = 0x25A1)"

text \<open>\<^verbatim>\<open>re.sub(class, "", text)\<close>: every character of the class is deleted.\<close>

definition re_sub_class :: "py_str \<Rightarrow> py_str" where
  "re_sub_class text = filter (\<lambda>c. \<not> in_removed_class c) text"

text \<open>
  \<^verbatim>\<open>re.sub(r"\s+", " ", text)\<close>: every maximal run of whitespace becomes one space
  (U+0020).
\<close>

function re_sub_spaces :: "py_str \<Rightarrow> py_str" where
  "re_sub_spaces [] = []"
| "re_sub_spaces (c # cs) =
     (if isspace c then 0x20 # re_sub_spaces (dropWhile isspace cs)
      else c # re_sub_spaces cs)"
  by pat_completeness auto
termination
  by (relation "measure length") (auto simp: less_Suc_eq_le length_dropWhile_le)

text \<open>\<^verbatim>\<open>clean_text\<close> of \<^verbatim>\<open>app.py\<close> (lines 61--65); \<^verbatim>\<open>str(text)\<close> of a string is the string.\<close>

definition app_clean_text :: "py_str \<Rightarrow> py_str" where
  "app_clean_text text = re_sub_spaces (re_sub_class (strip text))"

text \<open>\<^verbatim>\<open>clean_text\<close> of \<^verbatim>\<open>bill.py\<close> (lines 117--121).\<close>

definition bill_clean_text :: "py_str \<Rightarrow> py_str" where
  "bill_clean_text text = re_sub_spaces (re_sub_class (strip text))"

text \<open>
  A string in which every whitespace character is a single U+0020 with no whitespace
  right after it: the shape the second substitution produces and leaves alone.
\<close>

fun single_spaced :: "py_str \<Rightarrow> bool" where
  "single_spaced [] = True"
| "single_spaced (c # cs) =
     (if isspace c
      then c = 0x20 \<and> (case cs of [] \<Rightarrow> True | d # _ \<Rightarrow> \<not> isspace d) \<and> single_spaced cs
      else single_spaced cs)"

section \<open>Document assembly\<close>

text \<open>
  What the scripts hand to the PDF library. A table cell is a paragraph of sanitized text,
  an image of a given width and height in points, or a plain string; a style command is
  its name, the two cell coordinates of its range and its remaining arguments.
\<close>

datatype cell = Paragraph py_str | Image real real | Str py_str

datatype style_arg = Name string | Num real | Black

type_synonym style_command = "string \<times> (int \<times> int) \<times> (int \<times> int) \<times> style_arg list"

record rl_table =
  t_data :: "cell list list"
  t_colWidths :: "real list"
  t_style :: "style_command list"

text \<open>
  The surroundings of one run that the scripts do not compute themselves: the font name
  fixed by the registration at start-up (\<^verbatim>\<open>arial_font\<close>), the page height \<^verbatim>\<open>A4[1]\<close> and
  the library's \<^verbatim>\<open>Table.wrap\<close>, of which only the returned height is used. The library
  calls are taken as total functions; drawing (\<^verbatim>\<open>doc.build\<close>) is not modelled.
\<close>

record env =
  arial_font :: string
  page_height_points :: real
  wrap :: "rl_table \<Rightarrow> real \<Rightarrow> real \<Rightarrow> real"

text \<open>The document: the final table and the two values kept in \<^verbatim>\<open>g\<close> for the annotation.\<close>

record document =
  doc_table :: rl_table
  g_width_cm :: real
  g_height_points :: real
  doc_font_size_pt :: int

text \<open>
  What opening the barcode image gives: \<^verbatim>\<open>PILImage.open\<close> (or reading the upload)
  raises, or the image has a pixel size \<^verbatim>\<open>(width, height)\<close>. The CSV source likewise
  either raises while it is read and decoded, or yields its rows.
\<close>

datatype pil_image = OpenRaises | Size int int

datatype csv_source = CsvRaises | CsvRows "py_str list list"

text \<open>The style of the temporary table, \<^verbatim>\<open>app.py\<close> lines 248--259, \<^verbatim>\<open>bill.py\<close> 228--235.\<close>

definition temp_style :: "string \<Rightarrow> int \<Rightarrow> style_command list" where
  "temp_style font font_size_pt =
     [(''FONTNAME'', (0, 0), (-1, -1), [Name font]),
      (''FONTSIZE'', (0, 0), (-1, -1), [Num (real_of_int font_size_pt)]),
      (''LEFTPADDING'', (0, 0), (-1, -1), [Num 3]),
      (''RIGHTPADDING'', (0, 0), (-1, -1), [Num 3]),
      (''TOPPADDING'', (0, 0), (-1, -1), [Num 3]),
      (''BOTTOMPADDING'', (0, 0), (-1, -1), [Num 3])]"

text \<open>
  The final style commands, \<^verbatim>\<open>app.py\<close> lines 316--341, \<^verbatim>\<open>bill.py\<close> 305--330: the base
  list, the commands for the barcode row when there is one, then the grid down to
  \<^verbatim>\<open>grid_end_row\<close>.
\<close>

definition style_commands :: "string \<Rightarrow> int \<Rightarrow> bool \<Rightarrow> style_command list" where
  "style_commands font font_size_pt barcode_exists =
     (let base =
            [(''ALIGN'', (0, 0), (-1, -1), [Name ''CENTER'']),
             (''VALIGN'', (0, 0), (-1, -1), [Name ''MIDDLE'']),
             (''FONTNAME'', (0, 0), (-1, -1), [Name font]),
             (''FONTSIZE'', (0, 0), (-1, -1), [Num (real_of_int font_size_pt)]),
             (''LEFTPADDING'', (0, 0), (-1, -1), [Num 3]),
             (''RIGHTPADDING'', (0, 0), (-1, -1), [Num 3]),
             (''TOPPADDING'', (0, 0), (-1, -1), [Num 3]),
             (''BOTTOMPADDING'', (0, 0), (-1, -1), [Num 3])];
          grid_end_row = (if barcode_exists then -2 else -1);
          extended =
            (if barcode_exists
             then base @
               [(''SPAN'', (0, -1), (1, -1), []),
                (''BOX'', (0, -1), (1, -1), [Num 1, Black]),
                (''ALIGN'', (0, -1), (1, -1), [Name ''CENTER'']),
                (''VALIGN'', (0, -1), (1, -1), [Name ''MIDDLE'']),
                (''TOPPADDING'', (0, -1), (1, -1), [Num TOP_SPACER_HEIGHT]),
                (''BOTTOMPADDING'', (0, -1), (1, -1), [Num 3])]
             else base)
      in extended @ [(''GRID'', (0, 0), (-1, grid_end_row), [Num 1, Black])])"

subsection \<open>The barcode block\<close>

text \<open>
  The body of the \<^verbatim>\<open>try\<close> of \<^verbatim>\<open>app.py\<close> (lines 295--311): an exception is \<open>Inl\<close>, a
  normal end is the table rows and \<^verbatim>\<open>barcode_exists\<close>. A pixel height that is not
  positive skips the block without an exception.
\<close>

definition app_barcode_try ::
  "real \<Rightarrow> real \<Rightarrow> pil_image \<Rightarrow> cell list list \<Rightarrow> py_error + (cell list list \<times> bool)" where
  "app_barcode_try target total_width pil_img table_data =
     (case pil_img of
        OpenRaises \<Rightarrow> Inl ImageOpenError
      | Size img_width_px img_height_px \<Rightarrow>
          if img_height_px > 0 then
            (case fit_barcode target total_width img_width_px img_height_px of
               Inl e \<Rightarrow> Inl e
             | Inr (final_barcode_width, final_barcode_height) \<Rightarrow>
                 Inr (table_data @ [[Image final_barcode_width final_barcode_height, Str []]],
                      True))
          else Inr (table_data, False))"

text \<open>
  \<^verbatim>\<open>app.py\<close> lines 292--313: no upload (or one without a file name) leaves the rows as
  they are; \<^verbatim>\<open>except Exception\<close> sets \<^verbatim>\<open>barcode_exists = False\<close>, the row not yet
  appended.
\<close>

definition app_barcode_block ::
  "real \<Rightarrow> real \<Rightarrow> pil_image option \<Rightarrow> cell list list \<Rightarrow> cell list list \<times> bool" where
  "app_barcode_block target total_width barcode_file table_data =
     (case barcode_file of
        None \<Rightarrow> (table_data, False)
      | Some pil_img \<Rightarrow>
          (case app_barcode_try target total_width pil_img table_data of
             Inl e \<Rightarrow> (table_data, False)
           | Inr r \<Rightarrow> r))"

text \<open>
  The body of the \<^verbatim>\<open>try\<close> of \<^verbatim>\<open>bill.py\<close> (lines 277--297): a pixel height of zero raises
  \<^verbatim>\<open>Exception("Invalid barcode image height (0px)")\<close>.
\<close>

definition bill_barcode_try ::
  "real \<Rightarrow> real \<Rightarrow> pil_image \<Rightarrow> cell list list \<Rightarrow> py_error + (cell list list \<times> bool)" where
  "bill_barcode_try target total_width pil_img table_data =
     (case pil_img of
        OpenRaises \<Rightarrow> Inl ImageOpenError
      | Size img_width_px img_height_px \<Rightarrow>
          if img_height_px = 0 then Inl InvalidBarcodeHeight
          else
            (case fit_barcode target total_width img_width_px img_height_px of
               Inl e \<Rightarrow> Inl e
             | Inr (final_barcode_width, final_barcode_height) \<Rightarrow>
                 Inr (table_data @ [[Image final_barcode_width final_barcode_height, Str []]],
                      True)))"

text \<open>
  \<^verbatim>\<open>bill.py\<close> lines 274--302: \<open>None\<close> is a barcode path that does not exist; the handler
  prints a warning and \<^verbatim>\<open>barcode_exists\<close> keeps its initial \<^verbatim>\<open>False\<close>.
\<close>

definition bill_barcode_block ::
  "real \<Rightarrow> real \<Rightarrow> pil_image option \<Rightarrow> cell list list \<Rightarrow> cell list list \<times> bool" where
  "bill_barcode_block target total_width barcode_path table_data =
     (case barcode_path of
        None \<Rightarrow> (table_data, False)
      | Some pil_img \<Rightarrow>
          (case bill_barcode_try target total_width pil_img table_data of
             Inl e \<Rightarrow> (table_data, False)
           | Inr r \<Rightarrow> r))"

subsection \<open>The web variant\<close>

text \<open>
  \<^verbatim>\<open>generate\<close> of \<^verbatim>\<open>app.py\<close> from the table rows on (lines 188--351): the rows of
  sanitized paragraphs, the widths, the first measurement, the barcode height, the barcode
  block, the final table and its measurement.
\<close>

definition app_layout ::
  "env \<Rightarrow> real \<Rightarrow> real \<Rightarrow> int \<Rightarrow> (py_str \<times> py_str) list \<Rightarrow> pil_image option \<Rightarrow> document" where
  "app_layout e smallest second font_size_pt data barcode_file =
     (let table_data =
            map (\<lambda>(col_name, val).
                   [Paragraph (app_clean_text col_name), Paragraph (app_clean_text val)]) data;
          width_cm = total_table_width_cm smallest;
          col_width = width_cm / 3.0 * cm;
          col_value_width = width_cm * (2.0 / 3.0) * cm;
          total_width = width_cm * cm;
          temp_table = \<lparr>t_data = table_data, t_colWidths = [col_width, col_value_width],
                        t_style = temp_style (arial_font e) font_size_pt\<rparr>;
          main_table_height_points = wrap e temp_table total_width (page_height_points e);
          max_allowed_height_points = second * cm;
          target = target_barcode_height main_table_height_points max_allowed_height_points;
          (table_data', barcode_exists) =
            app_barcode_block target total_width barcode_file table_data;
          table = \<lparr>t_data = table_data', t_colWidths = [col_width, col_value_width],
                   t_style = style_commands (arial_font e) font_size_pt barcode_exists\<rparr>
      in \<lparr>doc_table = table, g_width_cm = width_cm,
          g_height_points = wrap e table total_width (page_height_points e * 10),
          doc_font_size_pt = font_size_pt\<rparr>)"

text \<open>
  The answer of the web variant: a plain-text error with status 400, or the PDF. The text
  of the exception that \<^verbatim>\<open>app.py\<close> appends to its CSV message is left out.
\<close>

datatype response = BadRequest string | Pdf document

text \<open>
  \<^verbatim>\<open>generate\<close> of \<^verbatim>\<open>app.py\<close> (lines 132--359). \<open>csv_file = None\<close> is a missing upload;
  a side is \<open>None\<close> when \<^verbatim>\<open>float\<close> raises \<^verbatim>\<open>ValueError\<close> on the form field.
\<close>

definition app_generate ::
  "env \<Rightarrow> csv_source option \<Rightarrow> pil_image option \<Rightarrow> real option \<Rightarrow> real option \<Rightarrow> response" where
  "app_generate e csv_file barcode_file side1 side2 =
     (case csv_file of
        None \<Rightarrow> BadRequest ''CSV file is required''
      | Some csv \<Rightarrow>
          (case (side1, side2) of
             (Some s1, Some s2) \<Rightarrow>
               if s1 \<le> 0 \<or> s2 \<le> 0
               then BadRequest ''Invalid label dimensions. Please provide positive numbers.''
               else
                 let smallest = smallest_side s1 s2;
                     second = second_smallest_side s1 s2;
                     pdp_area = smallest * second;
                     font_size_pt = app_get_font_size_pt (Some pdp_area)
                 in (case csv of
                       CsvRaises \<Rightarrow> BadRequest ''Error reading CSV''
                     | CsvRows rows \<Rightarrow>
                         Pdf (app_layout e smallest second font_size_pt (read_rows rows)
                                barcode_file))
           | _ \<Rightarrow> BadRequest ''Invalid label dimensions. Please provide positive numbers.''))"

subsection \<open>The batch variant\<close>

text \<open>\<^verbatim>\<open>bill.py\<close> from section 5 of the script on (lines 136--343).\<close>

definition bill_layout ::
  "env \<Rightarrow> real \<Rightarrow> real \<Rightarrow> int \<Rightarrow> (py_str \<times> py_str) list \<Rightarrow> pil_image option \<Rightarrow> document" where
  "bill_layout e smallest second font_size_pt data barcode_path =
     (let table_data =
            map (\<lambda>(col_name, val).
                   [Paragraph (bill_clean_text col_name), Paragraph (bill_clean_text val)]) data;
          width_cm = total_table_width_cm smallest;
          col_width = width_cm / 3.0 * cm;
          col_value_width = width_cm * (2.0 / 3.0) * cm;
          total_width = width_cm * cm;
          temp_table = \<lparr>t_data = table_data, t_colWidths = [col_width, col_value_width],
                        t_style = temp_style (arial_font e) font_size_pt\<rparr>;
          main_table_height_points = wrap e temp_table total_width (page_height_points e);
          max_allowed_height_points = second * cm;
          target = target_barcode_height main_table_height_points max_allowed_height_points;
          (table_data', barcode_exists) =
            bill_barcode_block target total_width barcode_path table_data;
          table = \<lparr>t_data = table_data', t_colWidths = [col_width, col_value_width],
                   t_style = style_commands (arial_font e) font_size_pt barcode_exists\<rparr>
      in \<lparr>doc_table = table, g_width_cm = width_cm,
          g_height_points = wrap e table total_width (page_height_points e * 10),
          doc_font_size_pt = font_size_pt\<rparr>)"

text \<open>
  The whole batch run (lines 53--352) for the pair of sides the prompt loop accepted
  (both positive). A CSV file that is missing or cannot be read leaves \<^verbatim>\<open>data\<close> empty;
  the run goes on and writes the document.
\<close>

definition bill_main :: "env \<Rightarrow> real \<Rightarrow> real \<Rightarrow> csv_source \<Rightarrow> pil_image option \<Rightarrow> document" where
  "bill_main e side1 side2 csv barcode_path =
     (let smallest = smallest_side side1 side2;
          second = second_smallest_side side1 side2;
          pdp_area = smallest * second;
          font_size_pt = bill_get_font_size_pt (Some pdp_area);
          data = (case csv of CsvRaises \<Rightarrow> [] | CsvRows rows \<Rightarrow> read_rows rows)
      in bill_layout e smallest second font_size_pt data barcode_path)"

section \<open>Properties of the sizing rules\<close>

lemma cm_pos: "0 < cm"
  by (simp add: cm_def)

lemma a4_page_width_cm_eq: "a4_page_width_cm = 21"
  by (simp add: a4_page_width_cm_def A4_0_def cm_def)

lemma total_table_width_cm_pos: "0 < total_table_width_cm s"
  by (simp add: total_table_width_cm_def Let_def a4_page_width_cm_eq)

lemma total_table_width_pos: "0 < total_table_width s"
  by (simp add: total_table_width_def total_table_width_cm_pos cm_pos)

text \<open>
  C1. For positive label sides the chosen table width is 20.0 cm when the smaller side
  exceeds 21.0 cm; otherwise it is the smaller side minus 1.0 cm, and 1.0 cm takes the
  place of that difference only when the difference is not positive.
\<close>

theorem width_selection_rule:
  assumes "0 < s1" and "0 < s2"
  shows "(min s1 s2 > 21 \<longrightarrow> total_table_width_cm (smallest_side s1 s2) = 20) \<and>
         (\<not> min s1 s2 > 21 \<longrightarrow>
            (min s1 s2 - 1 \<le> 0 \<longrightarrow> total_table_width_cm (smallest_side s1 s2) = 1) \<and>
            (\<not> min s1 s2 - 1 \<le> 0 \<longrightarrow>
               total_table_width_cm (smallest_side s1 s2) = min s1 s2 - 1))"
  by (auto simp: total_table_width_cm_def smallest_side_def a4_page_width_cm_eq Let_def min_def)

theorem width_selection_rule_witness:
  "(0::real) < 30 \<and> (0::real) < 25 \<and> (0::real) < 10 \<and> (0::real) < 15 \<and> (0::real) < 0.5 \<and>
   total_table_width_cm (smallest_side 30 25) = 20 \<and>
   total_table_width_cm (smallest_side 10 15) = 9 \<and>
   total_table_width_cm (smallest_side 0.5 15) = 1"
  using width_selection_rule [of 30 25] width_selection_rule [of 10 15]
    width_selection_rule [of "0.5" 15]
  by simp

text \<open>
  C2 (as stated). The claimed closed form \<open>max (min s1 s2 - 1) 1\<close> fails for a smaller
  side strictly between 1 and 2: at sides 1.5 and 1.5 the code chooses 0.5 cm, not 1.0 cm.
\<close>

theorem width_max_formula_counterexample:
  "(0::real) < 1.5 \<and> min (1.5::real) 1.5 \<le> 21 \<and> 1 < min (1.5::real) 1.5 \<and>
   min (1.5::real) 1.5 < 2 \<and>
   total_table_width_cm (smallest_side 1.5 1.5) = 0.5 \<and>
   total_table_width_cm (smallest_side 1.5 1.5) \<noteq> max (min 1.5 1.5 - 1) 1 \<and>
   total_table_width_cm (smallest_side 1.5 1.5) \<noteq> 1"
  by (simp add: total_table_width_cm_def smallest_side_def a4_page_width_cm_eq Let_def)

text \<open>
  C2 (amended). For positive label sides whose smaller side is at most 21.0 cm, the chosen
  width is the smaller side minus 1.0 when the smaller side exceeds 1.0, and 1.0 otherwise.
  It agrees with \<open>max (min s1 s2 - 1) 1\<close> when the smaller side is at most 1.0 or at least
  2.0; for a smaller side strictly between 1.0 and 2.0 the chosen width is that side minus
  1.0, a value strictly between 0 and 1.
\<close>

theorem width_below_a4:
  assumes "0 < s1" and "0 < s2" and "min s1 s2 \<le> 21"
  shows "total_table_width_cm (smallest_side s1 s2) =
           (if 1 < min s1 s2 then min s1 s2 - 1 else 1) \<and>
         (min s1 s2 \<le> 1 \<or> 2 \<le> min s1 s2 \<longrightarrow>
            total_table_width_cm (smallest_side s1 s2) = max (min s1 s2 - 1) 1) \<and>
         (1 < min s1 s2 \<and> min s1 s2 < 2 \<longrightarrow>
            total_table_width_cm (smallest_side s1 s2) = min s1 s2 - 1 \<and>
            0 < total_table_width_cm (smallest_side s1 s2) \<and>
            total_table_width_cm (smallest_side s1 s2) < 1)"
  using assms
  by (auto simp: total_table_width_cm_def smallest_side_def a4_page_width_cm_eq Let_def
      min_def max_def)

theorem width_below_a4_witness:
  "(0::real) < 1.5 \<and> (0::real) < 15 \<and> (0::real) < 10 \<and> min (1.5::real) 15 \<le> 21 \<and>
   min (10::real) 15 \<le> 21 \<and> 1 < min (1.5::real) 15 \<and> min (1.5::real) 15 < 2 \<and>
   2 \<le> min (10::real) 15 \<and>
   total_table_width_cm (smallest_side 1.5 15) = 0.5 \<and>
   total_table_width_cm (smallest_side 10 15) = max (min 10 15 - 1) 1"
  using width_below_a4 [of "1.5" 15] width_below_a4 [of 10 15]
  by simp

text \<open>
  C3. The bottom-padding constant of the barcode-height procedure is written
  \<^verbatim>\<open>3 * (cm / 72.0)\<close> with the comment ``3 points''. In the library's units
  (points) its value is \<open>3 / 2.54\<close>, about 1.18 points, not 3: \<^verbatim>\<open>cm / 72\<close> is not one
  point. The difference changes decisions: for a measured table height of 70 points on a
  label whose larger side is 3.1 cm the one-seventh test succeeds and the target height is
  10 points, although table, one seventh, top spacer and 3 points of padding together
  exceed the label side.
\<close>

theorem bottom_padding_value:
  "BOTTOM_PADDING_HEIGHT = 3 / 2.54 \<and> BOTTOM_PADDING_HEIGHT < 3 \<and>
   target_barcode_height 70 (3.1 * cm) = 10 \<and>
   70 + 70 / 7 + (TOP_SPACER_HEIGHT + 3) > 3.1 * cm"
  by (simp add: BOTTOM_PADDING_HEIGHT_def TOP_SPACER_HEIGHT_def TOTAL_ROW_PADDING_def
      target_barcode_height_def cm_def Let_def)

text \<open>
  C4. The font-size selector of either script returns 8 for an area of at most 50, 9 above
  50 up to 100, 10 above 100 up to 500, 16 above 500 up to 2500, 24 above 2500, and 8 when
  no area is supplied.
\<close>

theorem font_size_thresholds:
  "(a \<le> 50 \<longrightarrow> app_get_font_size_pt (Some a) = 8 \<and> bill_get_font_size_pt (Some a) = 8) \<and>
   (50 < a \<and> a \<le> 100 \<longrightarrow>
      app_get_font_size_pt (Some a) = 9 \<and> bill_get_font_size_pt (Some a) = 9) \<and>
   (100 < a \<and> a \<le> 500 \<longrightarrow>
      app_get_font_size_pt (Some a) = 10 \<and> bill_get_font_size_pt (Some a) = 10) \<and>
   (500 < a \<and> a \<le> 2500 \<longrightarrow>
      app_get_font_size_pt (Some a) = 16 \<and> bill_get_font_size_pt (Some a) = 16) \<and>
   (2500 < a \<longrightarrow> app_get_font_size_pt (Some a) = 24 \<and> bill_get_font_size_pt (Some a) = 24) \<and>
   app_get_font_size_pt None = 8 \<and> bill_get_font_size_pt None = 8"
  by (simp add: app_get_font_size_pt_def bill_get_font_size_pt_def)

theorem font_size_thresholds_witness:
  "(50::real) \<le> 50 \<and> (50::real) < 100 \<and> (100::real) \<le> 100 \<and> (100::real) < 500 \<and>
   (500::real) \<le> 500 \<and> (500::real) < 2500 \<and> (2500::real) \<le> 2500 \<and>
   (2500::real) < 2500.5 \<and>
   app_get_font_size_pt (Some 50) = 8 \<and> bill_get_font_size_pt (Some 50) = 8 \<and>
   app_get_font_size_pt (Some 100) = 9 \<and> bill_get_font_size_pt (Some 100) = 9 \<and>
   app_get_font_size_pt (Some 500) = 10 \<and> bill_get_font_size_pt (Some 500) = 10 \<and>
   app_get_font_size_pt (Some 2500) = 16 \<and> bill_get_font_size_pt (Some 2500) = 16 \<and>
   app_get_font_size_pt (Some 2500.5) = 24 \<and> bill_get_font_size_pt (Some 2500.5) = 24"
  using font_size_thresholds [of 50] font_size_thresholds [of 100]
    font_size_thresholds [of 500] font_size_thresholds [of 2500]
    font_size_thresholds [of "2500.5"]
  by simp

text \<open>
  C5. Let \<open>aspect\<close> be pixel width over pixel height, the pixel height positive, and the
  table width \<open>W\<close> positive (as every table width the scripts compute is, see
  \<open>total_table_width_pos\<close>). If \<open>aspect * h \<le> W\<close> the barcode is sized
  \<open>(aspect * h, h)\<close>; otherwise its width is \<open>W * 0.98\<close>, its height is that width
  divided by \<open>aspect\<close>, and width over height is still \<open>aspect\<close>. No exception is raised
  in either case.
\<close>

theorem barcode_fit:
  assumes "0 < hPx" and "0 < W"
  shows "(real_of_int wPx / real_of_int hPx * h \<le> W \<longrightarrow>
            fit_barcode h W wPx hPx = Inr (real_of_int wPx / real_of_int hPx * h, h)) \<and>
         (\<not> real_of_int wPx / real_of_int hPx * h \<le> W \<longrightarrow>
            (\<exists>fw fh. fit_barcode h W wPx hPx = Inr (fw, fh) \<and> fw = W * 0.98 \<and>
               fh = fw / (real_of_int wPx / real_of_int hPx) \<and>
               fw / fh = real_of_int wPx / real_of_int hPx))"
proof -
  let ?a = "real_of_int wPx / real_of_int hPx"
  have h0: "hPx \<noteq> 0" using assms(1) by simp
  have fits: "fit_barcode h W wPx hPx = Inr (?a * h, h)" if "?a * h \<le> W"
    using that h0 by (simp add: fit_barcode_def Let_def)
  have over: "\<exists>fw fh. fit_barcode h W wPx hPx = Inr (fw, fh) \<and> fw = W * 0.98 \<and>
      fh = fw / ?a \<and> fw / fh = ?a" if "\<not> ?a * h \<le> W"
  proof -
    from that assms(2) have "0 < ?a * h" by linarith
    then have a0: "?a \<noteq> 0" by auto
    have w0: "W * 0.98 \<noteq> 0" using assms(2) by simp
    have "fit_barcode h W wPx hPx = Inr (W * 0.98, W * 0.98 / ?a)"
      using that h0 a0 by (simp add: fit_barcode_def Let_def)
    moreover have "W * 0.98 / (W * 0.98 / ?a) = ?a"
      using a0 w0 by simp
    ultimately show ?thesis by blast
  qed
  from fits over show ?thesis by blast
qed

theorem barcode_fit_witness:
  "(0::int) < 100 \<and> (0::real) < 80 \<and> (0::real) < 120 \<and>
   real_of_int 200 / real_of_int 100 * 50 \<le> (120::real) \<and>
   \<not> real_of_int 200 / real_of_int 100 * 50 \<le> (80::real) \<and>
   fit_barcode 50 120 200 100 = Inr (100, 50) \<and>
   fit_barcode 50 80 200 100 = Inr (78.4, 39.2)"
proof -
  have fits: "fit_barcode 50 120 200 100 = Inr (100, 50)"
    using barcode_fit [of 100 120 200 50] by simp
  have pre: "(0::int) < 100" "(0::real) < 80" by simp_all
  have over: "\<not> real_of_int 200 / real_of_int 100 * 50 \<le> (80::real)" by simp
  from barcode_fit [OF pre, of 200 50] over
  obtain fw fh where r: "fit_barcode 50 80 200 100 = Inr (fw, fh)"
    and w: "fw = 80 * 0.98" and h: "fh = fw / (real_of_int 200 / real_of_int 100)"
    by blast
  from w h have "fw = 78.4" and "fh = 39.2" by simp_all
  with r fits show ?thesis by simp
qed

section \<open>Properties of the key/value extraction\<close>

lemma map_of_dict_set: "map_of (dict_set d k v) = (map_of d)(k \<mapsto> v)"
  by (induction d) (auto simp: fun_eq_iff)

lemma keys_dict_set_old: "k \<in> fst ` set d \<Longrightarrow> map fst (dict_set d k v) = map fst d"
  by (induction d) force+

lemma keys_dict_set_new: "k \<notin> fst ` set d \<Longrightarrow> map fst (dict_set d k v) = map fst d @ [k]"
  by (induction d) auto

lemma keys_dict_set:
  "map fst (dict_set d k v) = (if k \<in> fst ` set d then map fst d else map fst d @ [k])"
  by (simp add: keys_dict_set_old keys_dict_set_new)

lemma distinct_dict_set: "distinct (map fst d) \<Longrightarrow> distinct (map fst (dict_set d k v))"
  by (simp add: keys_dict_set)

lemma read_rows_snoc: "read_rows (rows @ [r]) = read_row (read_rows rows) r"
  by (simp add: read_rows_def)

lemma distinct_read_row: "distinct (map fst d) \<Longrightarrow> distinct (map fst (read_row d r))"
  by (simp add: read_row_def Let_def distinct_dict_set)

lemma distinct_read_rows: "distinct (map fst (read_rows rows))"
  by (induction rows rule: rev_induct) (simp_all add: read_rows_snoc distinct_read_row, simp add: read_rows_def)

lemma read_row_nonempty:
  "r \<noteq> [] \<Longrightarrow> read_row d r =
     dict_set d (strip (hd r)) (if 1 < length r then strip (join (ustr '','') (tl r)) else [])"
  by (cases r) (auto simp: read_row_def Let_def)

text \<open>
  C6. The rows \<open>[["A","1"],["A","2"]]\<close> give a record of exactly one entry, key \<open>"A"\<close>
  with value \<open>"2"\<close>. In general no key occurs twice in the record; after a further
  non-empty row the record holds that row's value under its key; and when the key was
  already present, the keys and the size of the record are unchanged (the value is
  overwritten, no entry is added).
\<close>

theorem duplicate_keys_overwrite:
  "read_rows [[ustr ''A'', ustr ''1''], [ustr ''A'', ustr ''2'']] = [(ustr ''A'', ustr ''2'')] \<and>
   length (read_rows [[ustr ''A'', ustr ''1''], [ustr ''A'', ustr ''2'']]) = 1 \<and>
   distinct (map fst (read_rows rows)) \<and>
   (r \<noteq> [] \<longrightarrow>
      map_of (read_rows (rows @ [r])) (strip (hd r)) =
        Some (if 1 < length r then strip (join (ustr '','') (tl r)) else [])) \<and>
   (r \<noteq> [] \<and> strip (hd r) \<in> fst ` set (read_rows rows) \<longrightarrow>
      map fst (read_rows (rows @ [r])) = map fst (read_rows rows) \<and>
      length (read_rows (rows @ [r])) = length (read_rows rows))"
proof -
  have ex: "read_rows [[ustr ''A'', ustr ''1''], [ustr ''A'', ustr ''2'']] = [(ustr ''A'', ustr ''2'')]"
    by (simp add: read_rows_def read_row_def strip_def isspace_def ustr_def)
  have look: "map_of (read_rows (rows @ [r])) (strip (hd r)) =
        Some (if 1 < length r then strip (join (ustr '','') (tl r)) else [])" if "r \<noteq> []"
    using that by (simp add: read_rows_snoc read_row_nonempty map_of_dict_set)
  have keys: "map fst (read_rows (rows @ [r])) = map fst (read_rows rows)"
    if "r \<noteq> []" "strip (hd r) \<in> fst ` set (read_rows rows)"
    using that by (simp add: read_rows_snoc read_row_nonempty keys_dict_set)
  have len: "length (read_rows (rows @ [r])) = length (read_rows rows)"
    if "r \<noteq> []" "strip (hd r) \<in> fst ` set (read_rows rows)"
    using keys [OF that] by (metis length_map)
  from ex look keys len distinct_read_rows show ?thesis by simp
qed

theorem duplicate_keys_overwrite_witness:
  "[ustr ''A'', ustr ''2''] \<noteq> [] \<and>
   strip (hd [ustr ''A'', ustr ''2'']) \<in>
     fst ` set (read_rows [[ustr ''A'', ustr ''1''], [ustr ''B'', ustr ''x'']]) \<and>
   map_of (read_rows ([[ustr ''A'', ustr ''1''], [ustr ''B'', ustr ''x'']] @
                      [[ustr ''A'', ustr ''2'']])) (ustr ''A'') = Some (ustr ''2'') \<and>
   map fst (read_rows ([[ustr ''A'', ustr ''1''], [ustr ''B'', ustr ''x'']] @
                       [[ustr ''A'', ustr ''2'']])) = [ustr ''A'', ustr ''B'']"
proof -
  let ?rows = "[[ustr ''A'', ustr ''1''], [ustr ''B'', ustr ''x'']]"
  let ?r = "[ustr ''A'', ustr ''2'']"
  have ne: "?r \<noteq> []" by simp
  have k: "strip (hd ?r) = ustr ''A''"
    by (simp add: strip_def isspace_def ustr_def)
  have v: "(if 1 < length ?r then strip (join (ustr '','') (tl ?r)) else []) = ustr ''2''"
    by (simp add: strip_def isspace_def ustr_def)
  have before: "read_rows ?rows = [(ustr ''A'', ustr ''1''), (ustr ''B'', ustr ''x'')]"
    by (simp add: read_rows_def read_row_def strip_def isspace_def ustr_def)
  have present: "strip (hd ?r) \<in> fst ` set (read_rows ?rows)"
    unfolding k before by simp
  note th = duplicate_keys_overwrite [of ?rows ?r]
  from th ne have "map_of (read_rows (?rows @ [?r])) (strip (hd ?r)) =
      Some (if 1 < length ?r then strip (join (ustr '','') (tl ?r)) else [])"
    by blast
  then have look: "map_of (read_rows (?rows @ [?r])) (ustr ''A'') = Some (ustr ''2'')"
    unfolding k v .
  from th ne present have "map fst (read_rows (?rows @ [?r])) = map fst (read_rows ?rows)"
    by blast
  then have keys: "map fst (read_rows (?rows @ [?r])) = [ustr ''A'', ustr ''B'']"
    unfolding before by simp
  from ne present look keys show ?thesis by blast
qed

text \<open>
  C7. An empty row leaves the record as it is. A row of more than one cell stores, under
  its first cell trimmed, the remaining cells joined with a comma and then trimmed. A row
  of exactly one cell stores the empty string under that cell trimmed. The row
  \<open>["Note","a","b"]\<close> yields the value \<open>"a,b"\<close>.
\<close>

theorem row_rule:
  "read_rows (rows @ [[]]) = read_rows rows \<and>
   (1 < length r \<longrightarrow>
      read_rows (rows @ [r]) =
        dict_set (read_rows rows) (strip (hd r)) (strip (join (ustr '','') (tl r))) \<and>
      map_of (read_rows (rows @ [r])) (strip (hd r)) = Some (strip (join (ustr '','') (tl r)))) \<and>
   read_rows (rows @ [[c]]) = dict_set (read_rows rows) (strip c) [] \<and>
   map_of (read_rows (rows @ [[c]])) (strip c) = Some [] \<and>
   read_rows [[ustr ''Note'', ustr ''a'', ustr ''b'']] = [(ustr ''Note'', ustr ''a,b'')]"
proof -
  have ex: "read_rows [[ustr ''Note'', ustr ''a'', ustr ''b'']] = [(ustr ''Note'', ustr ''a,b'')]"
    by (simp add: read_rows_def read_row_def strip_def isspace_def ustr_def)
  have empty: "read_rows (rows @ [[]]) = read_rows rows"
    by (simp add: read_rows_snoc read_row_def)
  have many: "read_rows (rows @ [r]) =
        dict_set (read_rows rows) (strip (hd r)) (strip (join (ustr '','') (tl r)))"
    if "1 < length r"
    using that by (cases r) (simp_all add: read_rows_snoc read_row_def Let_def)
  have one: "read_rows (rows @ [[c]]) = dict_set (read_rows rows) (strip c) []"
    by (simp add: read_rows_snoc read_row_def)
  from ex empty many one show ?thesis by (simp add: map_of_dict_set)
qed

theorem row_rule_witness:
  "1 < length [ustr ''Note'', ustr '' a'', ustr ''b ''] \<and>
   read_rows ([[ustr ''Note'', ustr ''x'']] @ [[ustr ''Note'', ustr '' a'', ustr ''b '']]) =
     [(ustr ''Note'', ustr ''a,b'')]"
proof -
  let ?rows = "[[ustr ''Note'', ustr ''x'']]"
  let ?r = "[ustr ''Note'', ustr '' a'', ustr ''b '']"
  have len: "1 < length ?r" by simp
  from row_rule [of ?rows ?r "ustr ''Price''"] len
  have "read_rows (?rows @ [?r]) =
      dict_set (read_rows ?rows) (strip (hd ?r)) (strip (join (ustr '','') (tl ?r)))"
    by blast
  also have "\<dots> = [(ustr ''Note'', ustr ''a,b'')]"
    by (simp add: read_rows_def read_row_def strip_def isspace_def ustr_def)
  finally show ?thesis using len by blast
qed

section \<open>Properties of the text sanitizer\<close>

lemma isspace_32: "isspace 0x20"
  by (simp add: isspace_def)

lemma not_removed_32: "\<not> in_removed_class 0x20"
  by (simp add: in_removed_class_def)

lemma set_re_sub_spaces:
  "c \<in> set (re_sub_spaces t) \<Longrightarrow> c = 0x20 \<or> (c \<in> set t \<and> \<not> isspace c)"
proof (induction t rule: re_sub_spaces.induct)
  case 1
  then show ?case by simp
next
  case (2 d cs)
  then show ?case
    by (auto split: if_splits dest: set_dropWhileD)
qed

lemma re_sub_spaces_dropWhile_head:
  "(case re_sub_spaces (dropWhile isspace cs) of [] \<Rightarrow> True | d # _ \<Rightarrow> \<not> isspace d)"
proof (cases "dropWhile isspace cs")
  case Nil
  show ?thesis unfolding Nil by simp
next
  case (Cons d ds)
  then have "\<not> isspace d" by (metis hd_dropWhile list.sel(1) list.distinct(1))
  with Cons show ?thesis by simp
qed

lemma single_spaced_re_sub_spaces: "single_spaced (re_sub_spaces t)"
proof (induction t rule: re_sub_spaces.induct)
  case 1
  then show ?case by simp
next
  case (2 c cs)
  show ?case
  proof (cases "isspace c")
    case True
    with 2 re_sub_spaces_dropWhile_head [of cs] show ?thesis
      by (simp add: isspace_32)
  next
    case False
    with 2 show ?thesis by simp
  qed
qed

lemma re_sub_spaces_id: "single_spaced t \<Longrightarrow> re_sub_spaces t = t"
proof (induction t)
  case Nil
  then show ?case by simp
next
  case (Cons c cs)
  show ?case
  proof (cases "isspace c")
    case True
    with Cons.prems have c: "c = 0x20" and nxt: "(case cs of [] \<Rightarrow> True | d # _ \<Rightarrow> \<not> isspace d)"
      and rest: "single_spaced cs" by simp_all
    from nxt have "dropWhile isspace cs = cs" by (cases cs) simp_all
    with True c Cons.IH [OF rest] show ?thesis by simp
  next
    case False
    with Cons show ?thesis by simp
  qed
qed

lemma single_spaced_dropWhile: "single_spaced t \<Longrightarrow> single_spaced (dropWhile P t)"
  by (induction t) (auto split: if_splits)

lemma single_spaced_prefix: "single_spaced (xs @ ys) \<Longrightarrow> single_spaced xs"
proof (induction xs)
  case Nil
  then show ?case by simp
next
  case (Cons c cs)
  then show ?case by (cases cs) (auto split: if_splits)
qed

lemma rstrip_prefix: "rev (dropWhile P (rev u)) @ rev (takeWhile P (rev u)) = u"
  by (metis rev_append rev_rev_ident takeWhile_dropWhile_id)

lemma single_spaced_strip: "single_spaced t \<Longrightarrow> single_spaced (strip t)"
proof -
  assume "single_spaced t"
  then have "single_spaced (dropWhile isspace t)" by (rule single_spaced_dropWhile)
  then have "single_spaced (strip t @ rev (takeWhile isspace (rev (dropWhile isspace t))))"
    by (simp add: strip_def rstrip_prefix)
  then show ?thesis by (rule single_spaced_prefix)
qed

lemma set_strip: "c \<in> set (strip t) \<Longrightarrow> c \<in> set t"
  by (auto simp: strip_def dest!: set_dropWhileD)

lemma re_sub_class_id: "(\<And>c. c \<in> set t \<Longrightarrow> \<not> in_removed_class c) \<Longrightarrow> re_sub_class t = t"
  by (simp add: re_sub_class_def)

lemma app_clean_text_not_removed: "c \<in> set (app_clean_text s) \<Longrightarrow> \<not> in_removed_class c"
  by (auto simp: app_clean_text_def re_sub_class_def not_removed_32 dest!: set_re_sub_spaces)

lemma app_clean_text_single_spaced: "single_spaced (app_clean_text s)"
  by (simp add: app_clean_text_def single_spaced_re_sub_spaces)

lemma app_clean_text_twice: "app_clean_text (app_clean_text s) = strip (app_clean_text s)"
proof -
  have "re_sub_class (strip (app_clean_text s)) = strip (app_clean_text s)"
    by (rule re_sub_class_id) (auto dest: set_strip app_clean_text_not_removed)
  moreover have "re_sub_spaces (strip (app_clean_text s)) = strip (app_clean_text s)"
    by (rule re_sub_spaces_id) (simp add: single_spaced_strip app_clean_text_single_spaced)
  ultimately show ?thesis by (simp add: app_clean_text_def [of "app_clean_text s"])
qed

lemma strip_fixed: "t = [] \<or> (\<not> isspace (hd t) \<and> \<not> isspace (last t)) \<Longrightarrow> strip t = t"
proof (cases t)
  case Nil
  then show ?thesis by (simp add: strip_def)
next
  case (Cons c cs)
  assume "t = [] \<or> (\<not> isspace (hd t) \<and> \<not> isspace (last t))"
  with Cons have h: "\<not> isspace (hd t)" and l: "\<not> isspace (last t)" and ne: "t \<noteq> []" by auto
  from h ne have 1: "dropWhile isspace t = t" by (cases t) simp_all
  from l ne have "\<not> isspace (hd (rev t))" by (simp add: hd_rev)
  with ne have 2: "dropWhile isspace (rev t) = rev t" by (cases "rev t") simp_all
  show ?thesis by (simp add: strip_def 1 2)
qed

lemma strip_ends: "strip t = [] \<or> (\<not> isspace (hd (strip t)) \<and> \<not> isspace (last (strip t)))"
proof (cases "strip t = []")
  case True
  then show ?thesis by simp
next
  case False
  let ?u = "dropWhile isspace t"
  let ?w = "dropWhile isspace (rev ?u)"
  have s: "strip t = rev ?w" by (simp add: strip_def)
  from False s have wne: "?w \<noteq> []" by simp
  then have "\<not> isspace (hd ?w)" by (metis hd_dropWhile)
  with wne have l: "\<not> isspace (last (strip t))" by (simp add: s last_rev)
  from wne have une: "?u \<noteq> []" by (metis dropWhile.simps(1) rev.simps(1))
  then have hu: "\<not> isspace (hd ?u)" by (metis hd_dropWhile)
  have "?u = strip t @ rev (takeWhile isspace (rev ?u))"
    by (simp add: s rstrip_prefix)
  with False have "hd ?u = hd (strip t)" by (metis hd_append2)
  with hu l show ?thesis by simp
qed

lemma strip_strip: "strip (strip t) = strip t"
  by (rule strip_fixed) (rule strip_ends)

lemma last_dropWhile_keep:
  "t \<noteq> [] \<Longrightarrow> \<not> P (last t) \<Longrightarrow> dropWhile P t \<noteq> [] \<and> last (dropWhile P t) = last t"
  by (induction t) (auto split: if_splits)

lemma re_sub_spaces_last:
  "t \<noteq> [] \<Longrightarrow> \<not> isspace (last t) \<Longrightarrow> re_sub_spaces t \<noteq> [] \<and> last (re_sub_spaces t) = last t"
proof (induction t rule: re_sub_spaces.induct)
  case 1
  then show ?case by simp
next
  case (2 c cs)
  show ?case
  proof (cases "isspace c")
    case True
    with "2.prems" have cs: "cs \<noteq> []" by auto
    with "2.prems" have l: "\<not> isspace (last cs)" by simp
    from last_dropWhile_keep [where P = isspace, OF cs l]
    have d: "dropWhile isspace cs \<noteq> []" "last (dropWhile isspace cs) = last cs" by simp_all
    with l have "\<not> isspace (last (dropWhile isspace cs))" by simp
    from "2.IH"(1) [OF True d(1) this] d cs True show ?thesis by simp
  next
    case False
    show ?thesis
    proof (cases "cs = []")
      case True
      with False show ?thesis by simp
    next
      case ne: False
      with "2.prems" have "\<not> isspace (last cs)" by simp
      from "2.IH"(2) [OF False ne this] False ne show ?thesis by simp
    qed
  qed
qed

lemma re_sub_spaces_ends:
  assumes "t = [] \<or> (\<not> isspace (hd t) \<and> \<not> isspace (last t))"
  shows "re_sub_spaces t = [] \<or>
         (\<not> isspace (hd (re_sub_spaces t)) \<and> \<not> isspace (last (re_sub_spaces t)))"
proof (cases t)
  case Nil
  then show ?thesis by simp
next
  case (Cons c cs)
  with assms have h: "\<not> isspace c" and l: "\<not> isspace (last t)" by auto
  from Cons h have "hd (re_sub_spaces t) = c" by simp
  moreover from re_sub_spaces_last [OF _ l] Cons have "last (re_sub_spaces t) = last t" by simp
  ultimately show ?thesis using h l by simp
qed

lemma app_clean_text_idem_clean_input:
  assumes "\<And>c. c \<in> set s \<Longrightarrow> \<not> in_removed_class c"
  shows "app_clean_text (app_clean_text s) = app_clean_text s"
proof -
  have "re_sub_class (strip s) = strip s"
    by (rule re_sub_class_id) (auto dest: set_strip assms)
  then have eq: "app_clean_text s = re_sub_spaces (strip s)" by (simp add: app_clean_text_def)
  have "strip (app_clean_text s) = app_clean_text s"
    unfolding eq by (rule strip_fixed, rule re_sub_spaces_ends, rule strip_ends)
  then show ?thesis by (simp add: app_clean_text_twice)
qed

lemma app_clean_text_thrice:
  "app_clean_text (app_clean_text (app_clean_text s)) = app_clean_text (app_clean_text s)"
proof -
  have "app_clean_text (app_clean_text (app_clean_text s)) = strip (app_clean_text (app_clean_text s))"
    by (rule app_clean_text_twice)
  also have "\<dots> = strip (strip (app_clean_text s))"
    by (simp only: app_clean_text_twice)
  also have "\<dots> = strip (app_clean_text s)"
    by (rule strip_strip)
  also have "\<dots> = app_clean_text (app_clean_text s)"
    by (rule app_clean_text_twice [symmetric])
  finally show ?thesis .
qed

lemma bill_clean_text_eq: "bill_clean_text s = app_clean_text s"
  by (simp add: bill_clean_text_def app_clean_text_def)

text \<open>
  C9 (as stated). The sanitizer is not idempotent: it trims before it deletes the
  characters of its class, so a deleted character at an end of the input can leave
  whitespace there. For the input U+0000, space, \<open>a\<close> the result is space, \<open>a\<close>, and
  sanitizing that gives \<open>a\<close>.
\<close>

theorem clean_text_idempotence_counterexample:
  "app_clean_text [0x00, 0x20, 0x61] = [0x20, 0x61] \<and>
   app_clean_text (app_clean_text [0x00, 0x20, 0x61]) = [0x61] \<and>
   app_clean_text (app_clean_text [0x00, 0x20, 0x61]) \<noteq> app_clean_text [0x00, 0x20, 0x61] \<and>
   bill_clean_text (bill_clean_text [0x00, 0x20, 0x61]) \<noteq> bill_clean_text [0x00, 0x20, 0x61]"
  by (simp add: app_clean_text_def bill_clean_text_def strip_def re_sub_class_def isspace_def
      in_removed_class_def)

text \<open>
  C9 (amended). For every input string, sanitizing a sanitized string returns it with its
  leading and trailing whitespace trimmed; the sanitizer is idempotent on every input
  that contains no character of the deleted class; and a second application always
  reaches a fixed point (a third changes nothing). This holds for either script's
  \<^verbatim>\<open>clean_text\<close>.
\<close>

theorem clean_text_second_pass:
  "app_clean_text (app_clean_text s) = strip (app_clean_text s) \<and>
   bill_clean_text (bill_clean_text s) = strip (bill_clean_text s) \<and>
   ((\<forall>c\<in>set s. \<not> in_removed_class c) \<longrightarrow>
      app_clean_text (app_clean_text s) = app_clean_text s \<and>
      bill_clean_text (bill_clean_text s) = bill_clean_text s) \<and>
   app_clean_text (app_clean_text (app_clean_text s)) = app_clean_text (app_clean_text s) \<and>
   bill_clean_text (bill_clean_text (bill_clean_text s)) = bill_clean_text (bill_clean_text s)"
  using app_clean_text_idem_clean_input [of s]
  by (simp add: bill_clean_text_eq app_clean_text_twice [symmetric] app_clean_text_thrice)

theorem clean_text_second_pass_witness:
  "list_all (\<lambda>c. \<not> in_removed_class c) (ustr ''  a   b '') \<and>
   app_clean_text (ustr ''  a   b '') = ustr ''a b'' \<and>
   app_clean_text (app_clean_text (ustr ''  a   b '')) = app_clean_text (ustr ''  a   b '') \<and>
   bill_clean_text (bill_clean_text (ustr ''  a   b '')) = bill_clean_text (ustr ''  a   b '')"
proof -
  let ?s = "ustr ''  a   b ''"
  have ok: "\<forall>c\<in>set ?s. \<not> in_removed_class c"
    by (simp add: ustr_def in_removed_class_def)
  then have ok': "list_all (\<lambda>c. \<not> in_removed_class c) ?s"
    by (simp add: list_all_iff)
  have val: "app_clean_text ?s = ustr ''a b''"
    by (simp add: app_clean_text_def strip_def re_sub_class_def isspace_def
        in_removed_class_def ustr_def)
  from clean_text_second_pass [of ?s] ok
  have "app_clean_text (app_clean_text ?s) = app_clean_text ?s \<and>
        bill_clean_text (bill_clean_text ?s) = bill_clean_text ?s"
    by blast
  with ok' val show ?thesis by blast
qed

text \<open>
  C10. The helper functions duplicated between the two scripts agree on every input: the
  two \<^verbatim>\<open>get_font_size_pt\<close> return the same size for every area (or none), and the two
  \<^verbatim>\<open>clean_text\<close> return the same string for every string.
\<close>

theorem duplicated_helpers_agree:
  "app_get_font_size_pt area_cm2 = bill_get_font_size_pt area_cm2 \<and>
   app_clean_text text = bill_clean_text text"
  by (simp add: app_get_font_size_pt_def bill_get_font_size_pt_def app_clean_text_def
      bill_clean_text_def)

section \<open>Properties of the barcode block\<close>

lemma app_barcode_block_failure:
  "pil_img = OpenRaises \<or> pil_img = Size w 0 \<Longrightarrow>
   app_barcode_block target total_width (Some pil_img) table_data = (table_data, False)"
  by (auto simp: app_barcode_block_def app_barcode_try_def)

lemma bill_barcode_block_failure:
  "pil_img = OpenRaises \<or> pil_img = Size w 0 \<Longrightarrow>
   bill_barcode_block target total_width (Some pil_img) table_data = (table_data, False)"
  by (auto simp: bill_barcode_block_def bill_barcode_try_def)

lemma app_barcode_block_none:
  "app_barcode_block target total_width None table_data = (table_data, False)"
  by (simp add: app_barcode_block_def)

lemma bill_barcode_block_none:
  "bill_barcode_block target total_width None table_data = (table_data, False)"
  by (simp add: bill_barcode_block_def)

lemma app_layout_failure:
  "pil_img = OpenRaises \<or> pil_img = Size w 0 \<Longrightarrow>
   app_layout e smallest second fs data (Some pil_img) = app_layout e smallest second fs data None"
  by (simp add: app_layout_def app_barcode_block_failure app_barcode_block_none)

lemma bill_layout_failure:
  "pil_img = OpenRaises \<or> pil_img = Size w 0 \<Longrightarrow>
   bill_layout e smallest second fs data (Some pil_img) = bill_layout e smallest second fs data None"
  by (simp add: bill_layout_def bill_barcode_block_failure bill_barcode_block_none)

lemma app_layout_none_rows:
  "t_data (doc_table (app_layout e smallest second fs data None)) =
     map (\<lambda>(col_name, val). [Paragraph (app_clean_text col_name), Paragraph (app_clean_text val)]) data"
  by (simp add: app_layout_def app_barcode_block_none Let_def)

lemma app_layout_none_style:
  "t_style (doc_table (app_layout e smallest second fs data None)) =
     style_commands (arial_font e) fs False"
  by (simp add: app_layout_def app_barcode_block_none Let_def)

lemma bill_layout_none_rows:
  "t_data (doc_table (bill_layout e smallest second fs data None)) =
     map (\<lambda>(col_name, val). [Paragraph (bill_clean_text col_name), Paragraph (bill_clean_text val)]) data"
  by (simp add: bill_layout_def bill_barcode_block_none Let_def)

lemma bill_layout_none_style:
  "t_style (doc_table (bill_layout e smallest second fs data None)) =
     style_commands (arial_font e) fs False"
  by (simp add: bill_layout_def bill_barcode_block_none Let_def)

text \<open>
  C8. When a barcode image is supplied but cannot be opened, or has a pixel height of zero,
  the barcode block of either script ends with the table rows unchanged and
  \<^verbatim>\<open>barcode_exists = False\<close>. The web variant answers exactly as it does for the same
  request without a barcode, and for a readable CSV and positive sides that answer is the
  PDF whose table holds the text rows only, styled without a barcode row. The batch
  variant writes exactly the document it writes without a barcode file, again with the
  text rows only.
\<close>

theorem barcode_failure_recovered:
  assumes "pil_img = OpenRaises \<or> pil_img = Size w 0"
  shows "app_barcode_block target tw (Some pil_img) td = (td, False) \<and>
     bill_barcode_block target tw (Some pil_img) td = (td, False) \<and>
     app_generate e csv_file (Some pil_img) side1 side2 = app_generate e csv_file None side1 side2 \<and>
     (0 < s1 \<and> 0 < s2 \<longrightarrow>
        (\<exists>doc. app_generate e (Some (CsvRows rows)) (Some pil_img) (Some s1) (Some s2) = Pdf doc \<and>
           t_data (doc_table doc) =
             map (\<lambda>(col_name, val).
                    [Paragraph (app_clean_text col_name), Paragraph (app_clean_text val)])
               (read_rows rows) \<and>
           t_style (doc_table doc) = style_commands (arial_font e) (doc_font_size_pt doc) False)) \<and>
     bill_main e s1 s2 csv (Some pil_img) = bill_main e s1 s2 csv None \<and>
     t_data (doc_table (bill_main e s1 s2 (CsvRows rows) (Some pil_img))) =
       map (\<lambda>(col_name, val).
              [Paragraph (bill_clean_text col_name), Paragraph (bill_clean_text val)])
         (read_rows rows) \<and>
     t_style (doc_table (bill_main e s1 s2 (CsvRows rows) (Some pil_img))) =
       style_commands (arial_font e)
         (doc_font_size_pt (bill_main e s1 s2 (CsvRows rows) (Some pil_img))) False"
proof -
  have 2: "app_generate e csv_file (Some pil_img) side1 side2 = app_generate e csv_file None side1 side2"
    by (simp add: app_generate_def app_layout_failure [OF assms] Let_def
        split: option.splits csv_source.splits)
  have 3: "\<exists>doc. app_generate e (Some (CsvRows rows)) (Some pil_img) (Some s1) (Some s2) = Pdf doc \<and>
           t_data (doc_table doc) =
             map (\<lambda>(col_name, val).
                    [Paragraph (app_clean_text col_name), Paragraph (app_clean_text val)])
               (read_rows rows) \<and>
           t_style (doc_table doc) = style_commands (arial_font e) (doc_font_size_pt doc) False"
    if "0 < s1" "0 < s2"
  proof -
    let ?doc = "app_layout e (smallest_side s1 s2) (second_smallest_side s1 s2)
        (app_get_font_size_pt (Some (smallest_side s1 s2 * second_smallest_side s1 s2)))
        (read_rows rows) None"
    have "app_generate e (Some (CsvRows rows)) (Some pil_img) (Some s1) (Some s2) = Pdf ?doc"
      using that by (simp add: app_generate_def app_layout_failure [OF assms] Let_def)
    moreover have "doc_font_size_pt ?doc =
        app_get_font_size_pt (Some (smallest_side s1 s2 * second_smallest_side s1 s2))"
      by (simp add: app_layout_def Let_def split: prod.splits)
    ultimately show ?thesis
      by (simp add: app_layout_none_rows app_layout_none_style)
  qed
  have 4: "bill_main e s1 s2 csv (Some pil_img) = bill_main e s1 s2 csv None"
    by (simp add: bill_main_def bill_layout_failure [OF assms] Let_def)
  have 5: "t_data (doc_table (bill_main e s1 s2 (CsvRows rows) (Some pil_img))) =
       map (\<lambda>(col_name, val).
              [Paragraph (bill_clean_text col_name), Paragraph (bill_clean_text val)])
         (read_rows rows)"
    by (simp add: bill_main_def bill_layout_failure [OF assms] bill_layout_none_rows Let_def)
  have 6: "t_style (doc_table (bill_main e s1 s2 (CsvRows rows) (Some pil_img))) =
       style_commands (arial_font e)
         (doc_font_size_pt (bill_main e s1 s2 (CsvRows rows) (Some pil_img))) False"
  proof -
    have "doc_font_size_pt (bill_layout e a b fs d None) = fs" for a b fs d
      by (simp add: bill_layout_def Let_def split: prod.splits)
    then show ?thesis
      by (simp add: bill_main_def bill_layout_failure [OF assms] bill_layout_none_style Let_def)
  qed
  from 2 3 4 5 6 app_barcode_block_failure [OF assms] bill_barcode_block_failure [OF assms]
  show ?thesis by blast
qed

theorem barcode_failure_recovered_witness:
  "(0::real) < 10 \<and> (0::real) < 15 \<and>
   app_barcode_block 14 255 (Some (Size 200 0)) [[Paragraph (ustr ''A''), Paragraph (ustr ''1'')]] =
     ([[Paragraph (ustr ''A''), Paragraph (ustr ''1'')]], False) \<and>
   bill_barcode_block 14 255 (Some (Size 200 0)) [[Paragraph (ustr ''A''), Paragraph (ustr ''1'')]] =
     ([[Paragraph (ustr ''A''), Paragraph (ustr ''1'')]], False) \<and>
   (\<exists>doc. app_generate
            \<lparr>arial_font = ''Helvetica'', page_height_points = 29.7 * cm,
             wrap = (\<lambda>t aw ah. 20 * real (length (t_data t)))\<rparr>
            (Some (CsvRows [[ustr ''A'', ustr ''1'']])) (Some OpenRaises) (Some 10) (Some 15) =
          Pdf doc \<and>
      t_data (doc_table doc) = [[Paragraph (ustr ''A''), Paragraph (ustr ''1'')]])"
proof -
  let ?e = "\<lparr>arial_font = ''Helvetica'', page_height_points = 29.7 * cm,
             wrap = (\<lambda>t aw ah. 20 * real (length (t_data t)))\<rparr>"
  let ?td = "[[Paragraph (ustr ''A''), Paragraph (ustr ''1'')]]"
  let ?rows = "[[ustr ''A'', ustr ''1'']]"
  have zero: "Size 200 0 = OpenRaises \<or> Size 200 0 = Size 200 0" by simp
  have raises: "OpenRaises = OpenRaises \<or> OpenRaises = Size 0 0" by simp
  have pos: "(0::real) < 10 \<and> (0::real) < 15" by simp
  have rows: "map (\<lambda>(col_name, val).
                    [Paragraph (app_clean_text col_name), Paragraph (app_clean_text val)])
               (read_rows ?rows) = ?td"
    by (simp add: read_rows_def read_row_def app_clean_text_def strip_def re_sub_class_def
        isspace_def in_removed_class_def ustr_def)
  from barcode_failure_recovered [OF zero, where target = 14 and tw = 255 and td = ?td]
  have blocks: "app_barcode_block 14 255 (Some (Size 200 0)) ?td = (?td, False) \<and>
      bill_barcode_block 14 255 (Some (Size 200 0)) ?td = (?td, False)"
    by blast
  from barcode_failure_recovered
    [OF raises, where e = ?e and ?s1.0 = 10 and ?s2.0 = 15 and rows = ?rows] pos
  obtain doc where
    "app_generate ?e (Some (CsvRows ?rows)) (Some OpenRaises) (Some 10) (Some 15) = Pdf doc"
    and "t_data (doc_table doc) =
      map (\<lambda>(col_name, val).
             [Paragraph (app_clean_text col_name), Paragraph (app_clean_text val)])
        (read_rows ?rows)"
    by blast
  with rows blocks pos show ?thesis by auto
qed

end
